theory Spec2Isabelle
  imports Main "HOL-Library.Word" "HOL-Library.AList"
begin

section \<open>The Kiwi evaluator: values, failures, machine integers\<close>

text \<open>
  A shallow embedding of the tree-walking evaluator of \<^verbatim>\<open>kiwi/include/interpreter.h\<close>
  and of the slice and frame helpers of \<^verbatim>\<open>include/interp_helper.h\<close> and
  \<^verbatim>\<open>include/stackframe.h\<close>.

  The value universe \<^verbatim>\<open>k_value\<close> is a \<^verbatim>\<open>std::variant\<close>. Its header
  (\<^verbatim>\<open>typing/value.h\<close>) is not among the sources, so the alternatives are the ones the
  evaluator tests with \<^verbatim>\<open>std::holds_alternative\<close>. A \<^verbatim>\<open>k_int\<close> carries a
  mathematical integer; a double is kept as its 64 bits. Lists, hashes and objects are
  reference-shared in the C++; here they are held by value: in-place mutation returns the
  new container, and an update is seen through the name it is stored back to, not through
  other aliases. A hash is its entries in insertion order (\<^verbatim>\<open>keys\<close> and \<^verbatim>\<open>kvp\<close>
  of the C++ \<^verbatim>\<open>Hash\<close> in one association list); an object is its class name, its
  instance variables and its identifier.
\<close>

datatype k_value =
    KInt int
  | KDouble "64 word"
  | KBool bool
  | KString string
  | KList "k_value list"
  | KHash "(string \<times> k_value) list"
  | KObject string "(string \<times> k_value) list" string
  | KClassRef string
  | KLambdaRef string

text \<open>
  Modelled from the spec: the default-constructed \<^verbatim>\<open>k_value\<close> (as in
  \<^verbatim>\<open>k_value result;\<close>). The variant's declaration is missing; the spec's data model
  lists Integer first and says that integer zero is the unit result throughout.
\<close>

definition default_value :: k_value where
  "default_value = KInt 0"

text \<open>
  Modelled from the spec: the error hierarchy (\<^verbatim>\<open>errors/error.h\<close> of the evaluator's
  version is missing). Every typed failure is a \<^verbatim>\<open>KiwiError\<close> with a kind name
  (\<^verbatim>\<open>getError\<close>) and a message (\<^verbatim>\<open>getMessage\<close>); the token is dropped. The
  subclasses the modelled code throws are given by their kind names.
\<close>

datatype KiwiError = KiwiError (getError: string) (getMessage: string)

definition IndexError :: "string \<Rightarrow> KiwiError" where
  "IndexError msg = KiwiError ''IndexError'' msg"

definition RangeError :: "string \<Rightarrow> KiwiError" where
  "RangeError msg = KiwiError ''RangeError'' msg"

definition HashKeyError :: "string \<Rightarrow> KiwiError" where
  "HashKeyError key = KiwiError ''HashKeyError'' key"

definition InvalidOperationError :: "string \<Rightarrow> KiwiError" where
  "InvalidOperationError msg = KiwiError ''InvalidOperationError'' msg"

definition ConversionError :: "string \<Rightarrow> KiwiError" where
  "ConversionError msg = KiwiError ''ConversionError'' msg"

text \<open>
  What is not a \<^verbatim>\<open>KiwiError\<close>: a C++ standard exception
  (\<^verbatim>\<open>std::out_of_range\<close>, \<^verbatim>\<open>std::bad_variant_access\<close>, and the
  \<^verbatim>\<open>std::length_error\<close> or \<^verbatim>\<open>std::bad_alloc\<close> of a vector that cannot get its
  storage), or behaviour the C++ standard leaves undefined (an access outside a vector,
  \<^verbatim>\<open>top()\<close> of an empty stack, signed overflow). No handler of the evaluator catches
  these.
\<close>

datatype host_failure = StdOutOfRange | BadVariantAccess | StdAllocation | Undefined

text \<open>
  How a piece of evaluator code ends: with a value, with a thrown \<^verbatim>\<open>KiwiError\<close>, with
  a host failure, or in \<^verbatim>\<open>exit(code)\<close>, which ends the process.
\<close>

datatype 'a result = Ok 'a | Err KiwiError | Fault host_failure | Exit int

text \<open>
  \<^verbatim>\<open>int\<close> is 32 bits wide and \<^verbatim>\<open>k_int\<close> 64: \<open>to_int\<close> is the narrowing
  conversion of \<^verbatim>\<open>int start = std::get<k_int>(...)\<close> and of
  \<^verbatim>\<open>static_cast<int>(size)\<close>; \<open>add_int\<close> is \<^verbatim>\<open>int\<close> addition, \<open>None\<close>
  where it overflows. It is used for \<^verbatim>\<open>i += step\<close> in the loops. The additions
  \<^verbatim>\<open>start += listSize\<close> and \<^verbatim>\<open>stop += listSize\<close> of a negative index and a
  length are written with \<open>+\<close>: they cannot overflow for a list of fewer than
  \<open>2^31\<close> elements, which the theorems on slices assume.
\<close>

definition to_int :: "int \<Rightarrow> int" where
  "to_int x = signed_take_bit 31 x"

definition add_int :: "int \<Rightarrow> int \<Rightarrow> int option" where
  "add_int a b =
     (if - (2 ^ 31) \<le> a + b \<and> a + b < 2 ^ 31 then Some (a + b) else None)"

section \<open>The slice engine (\<^verbatim>\<open>InterpHelper\<close>)\<close>

text \<open>
  \<^verbatim>\<open>SliceIndex\<close> (\<^verbatim>\<open>objects/sliceindex.h\<close>, missing) as the helpers use it: three
  variant fields that must hold a \<^verbatim>\<open>k_int\<close>, and the flag \<^verbatim>\<open>isSlice\<close>.
\<close>

record SliceIndex =
  indexOrStart :: k_value
  stopIndex :: k_value
  stepValue :: k_value
  isSlice :: bool








text \<open>
  The two loops of read slicing. The forward loop
  \<^verbatim>\<open>for (int i = start; i < stop; i += step)\<close> need not end (nothing excludes
  \<^verbatim>\<open>step == 0\<close>), so both loops are partial functions: \<open>None\<close> is a loop that
  never returns.
\<close>

partial_function (option) slice_backward ::
  "int \<Rightarrow> int \<Rightarrow> int \<Rightarrow> int \<Rightarrow> k_value list \<Rightarrow> k_value list
     \<Rightarrow> k_value list result option" where
  "slice_backward i stop step listSize elems acc =
     (if i \<ge> stop then
        (if i < 0 \<or> i \<ge> listSize then Some (Ok acc)
         else if \<not> i < int (length elems) then Some (Fault Undefined)
         else (case add_int i step of
                 None \<Rightarrow> Some (Fault Undefined)
               | Some i' \<Rightarrow>
                   slice_backward i' stop step listSize elems (acc @ [elems ! nat i])))
      else Some (Ok acc))"

partial_function (option) slice_forward ::
  "int \<Rightarrow> int \<Rightarrow> int \<Rightarrow> int \<Rightarrow> k_value list \<Rightarrow> k_value list
     \<Rightarrow> k_value list result option" where
  "slice_forward i stop step listSize elems acc =
     (if i < stop then
        (if i \<ge> listSize then Some (Ok acc)
         else if \<not> (0 \<le> i \<and> i < int (length elems)) then Some (Fault Undefined)
         else (case add_int i step of
                 None \<Rightarrow> Some (Fault Undefined)
               | Some i' \<Rightarrow>
                   slice_forward i' stop step listSize elems (acc @ [elems ! nat i])))
      else Some (Ok acc))"

text \<open>
  \<^verbatim>\<open>InterpHelper::interpretListSlice\<close>: a slice read when \<^verbatim>\<open>isSlice\<close> holds, a
  single-index read otherwise. The single-index read adds the length to a negative index
  before the range check.
\<close>

definition interpretListSlice :: "SliceIndex \<Rightarrow> k_value list \<Rightarrow> k_value result option" where
  "interpretListSlice sl elems =
     (if isSlice sl then
        (case indexOrStart sl of
           KInt start0 \<Rightarrow>
             (case stopIndex sl of
                KInt stop0 \<Rightarrow>
                  (case stepValue sl of
                     KInt step0 \<Rightarrow>
                       (let start = to_int start0;
                            stop = to_int stop0;
                            step = to_int step0;
                            listSize = to_int (int (length elems));
                            start = (if start < 0 then max (start + listSize) 0 else start);
                            stop = (if stop < 0 then stop + listSize else min stop listSize);
                            stop = (if step < 0 \<and> stop = listSize then - 1 else stop);
                            walk = (if step < 0
                                    then slice_backward
                                           (if start = 0 then listSize - 1 else start)
                                           stop step listSize elems []
                                    else slice_forward start stop step listSize elems [])
                        in map_option (map_result KList) walk)
                   | _ \<Rightarrow> Some (Err (IndexError ''Step value must be an integer.'')))
              | _ \<Rightarrow> Some (Err (IndexError ''Stop index must be an integer.'')))
         | _ \<Rightarrow> Some (Err (IndexError ''Start index must be an integer.'')))
      else
        (case indexOrStart sl of
           KInt index0 \<Rightarrow>
             (let index = to_int index0;
                  listSize = to_int (int (length elems));
                  index = (if index < 0 then index + listSize else index)
              in if index < 0 \<or> index \<ge> listSize
                 then Some (Err (RangeError ''List index out of range.''))
                 else if \<not> index < int (length elems) then Some (Fault Undefined)
                 else Some (Ok (elems ! nat index)))
         | _ \<Rightarrow> Some (Err (IndexError ''Index value must be an integer.''))))"



section \<open>Frames and the call stack (\<^verbatim>\<open>stackframe.h\<close>)\<close>

unbundle bit_operations_syntax

text \<open>
  \<^verbatim>\<open>enum class FrameFlags : uint8_t\<close> with its \<^verbatim>\<open>|\<close>, \<^verbatim>\<open>&\<close> and
  \<^verbatim>\<open>~\<close>: a bit set in eight bits.
\<close>

type_synonym FrameFlags = "8 word"

definition ReturnFlag :: FrameFlags where "ReturnFlag = push_bit 0 1"
definition SubFrame :: FrameFlags where "SubFrame = push_bit 1 1"
definition LoopBreak :: FrameFlags where "LoopBreak = push_bit 2 1"
definition LoopContinue :: FrameFlags where "LoopContinue = push_bit 3 1"
definition InTry :: FrameFlags where "InTry = push_bit 4 1"
definition InObject :: FrameFlags where "InObject = push_bit 5 1"

text \<open>
  \<^verbatim>\<open>Object\<close> as the evaluator uses it, and the frame. The frame's \<^verbatim>\<open>variables\<close>
  is a \<^verbatim>\<open>std::map\<close>: an association list with one entry per name, where
  \<^verbatim>\<open>variables[name] = v\<close> is \<open>AList.update\<close> and \<^verbatim>\<open>erase\<close> is
  \<open>AList.delete\<close>. The fields of the token-stream interpreter (\<^verbatim>\<open>tokens\<close>,
  \<^verbatim>\<open>position\<close>, \<^verbatim>\<open>errorState\<close>) are not used by the evaluator and are left
  out. \<^verbatim>\<open>objectContext\<close> is a shared pointer, \<open>None\<close> when null.
\<close>

record Object =
  className :: string
  instanceVariables :: "(string \<times> k_value) list"
  object_identifier :: string

record CallStackFrame =
  variables :: "(string \<times> k_value) list"
  returnValue :: k_value
  objectContext :: "Object option"
  flags :: FrameFlags

definition setFlag :: "FrameFlags \<Rightarrow> CallStackFrame \<Rightarrow> CallStackFrame" where
  "setFlag flag frame = frame\<lparr>flags := flags frame OR flag\<rparr>"

definition clearFlag :: "FrameFlags \<Rightarrow> CallStackFrame \<Rightarrow> CallStackFrame" where
  "clearFlag flag frame = frame\<lparr>flags := flags frame AND NOT flag\<rparr>"

definition isFlagSet :: "FrameFlags \<Rightarrow> CallStackFrame \<Rightarrow> bool" where
  "isFlagSet flag frame \<longleftrightarrow> flags frame AND flag = flag"

definition inObjectContext :: "CallStackFrame \<Rightarrow> bool" where
  "inObjectContext frame \<longleftrightarrow> isFlagSet InObject frame"

text \<open>
  \<^verbatim>\<open>InterpHelper::shouldUpdateFrameVariables\<close> and
  \<^verbatim>\<open>InterpHelper::updateVariablesInCallerFrame\<close>: the loop over the dropped frame's
  variables, each copied to the caller only where the caller already has the name.
\<close>

definition shouldUpdateFrameVariables :: "string \<Rightarrow> CallStackFrame \<Rightarrow> bool" where
  "shouldUpdateFrameVariables varName nextFrame \<longleftrightarrow>
     map_of (variables nextFrame) varName \<noteq> None"

fun updateVariablesInCallerFrame ::
  "(string \<times> k_value) list \<Rightarrow> CallStackFrame \<Rightarrow> CallStackFrame" where
  "updateVariablesInCallerFrame [] callerFrame = callerFrame"
| "updateVariablesInCallerFrame (var # vars) callerFrame =
     updateVariablesInCallerFrame vars
       (if shouldUpdateFrameVariables (fst var) callerFrame
        then callerFrame\<lparr>variables := AList.update (fst var) (snd var) (variables callerFrame)\<rparr>
        else callerFrame)"

section \<open>The syntax tree and the evaluator's state\<close>

text \<open>
  Modelled from the spec: the operator names \<^verbatim>\<open>KName::Ops_...\<close> (their header is
  missing), one per operation of the math facade, and \<^verbatim>\<open>Ops_Assign\<close>.
\<close>

datatype KName =
    Ops_Assign | Ops_Add | Ops_Subtract | Ops_Multiply | Ops_Divide | Ops_Modulo
  | Ops_Exponent | Ops_BitwiseAnd | Ops_BitwiseOr | Ops_BitwiseXor
  | Ops_BitwiseLeftShift | Ops_BitwiseRightShift | Ops_Equal | Ops_NotEqual
  | Ops_LessThan | Ops_LessThanOrEqual | Ops_GreaterThan | Ops_GreaterThanOrEqual
  | Ops_And | Ops_Or

text \<open>
  The node kinds whose handlers are embedded, with the fields the handlers read (the
  \<^verbatim>\<open>ast.h\<close> among the sources is older than the evaluator and lacks most of them).
  A child the handler tests against null is an \<open>option\<close>; the two catch names of a try
  node are the names of its identifier nodes (\<^verbatim>\<open>id(node)\<close>).
\<close>

datatype ASTNode =
    NoOpNode
  | ProgramNode bool "ASTNode list"
  | LiteralNode k_value
  | ListLiteralNode "ASTNode list"
  | RangeLiteralNode ASTNode ASTNode
  | IdentifierNode string
  | PrintNode ASTNode bool
  | BinaryOperationNode ASTNode KName ASTNode
  | MemberAccessNode ASTNode string
  | IndexingNode "ASTNode option" ASTNode
  | ThrowNode "ASTNode option" "ASTNode option"
  | TryNode "ASTNode list" "ASTNode list" "ASTNode list" "string option" "string option"

fun is_IndexingNode :: "ASTNode \<Rightarrow> bool" where
  "is_IndexingNode (IndexingNode indexedObject indexExpression) = True"
| "is_IndexingNode _ = False"

text \<open>
  \<^verbatim>\<open>KLambda\<close> and \<^verbatim>\<open>KClass\<close> as far as the embedded handlers read them, and the
  global registries of \<^verbatim>\<open>interpreter.h\<close> with the call stack. Standard output is
  kept as the values handed to \<^verbatim>\<open>Serializer::serialize\<close>, each with the flag
  whether \<^verbatim>\<open>std::endl\<close> follows.
\<close>

record KLambda =
  parameters :: "(string \<times> k_value) list"
  defaultParameters :: "string list"
  body :: "ASTNode list"

record KClass =
  kclass_name :: string
  baseClass :: string

record interp_state =
  callStack :: "CallStackFrame list"
  classes :: "string \<Rightarrow> KClass option"
  lambdas :: "string \<Rightarrow> KLambda option"
  lambdaTable :: "string \<Rightarrow> string option"
  stdout :: "(k_value \<times> bool) list"

text \<open>
  The math facade and the value accessors (\<^verbatim>\<open>math/functions.h\<close>,
  \<^verbatim>\<open>typing/value.h\<close>) are not among the sources: the handlers take them as a
  parameter. With them goes what the sources cannot fix about the host:
  \<open>reserve_limit\<close> is the number of elements up to which
  \<^verbatim>\<open>elements.reserve(n)\<close> on a vector of values gets its storage. It is at most the
  vector's \<^verbatim>\<open>max_size()\<close>; above it \<^verbatim>\<open>reserve\<close> throws
  \<^verbatim>\<open>std::length_error\<close> or \<^verbatim>\<open>std::bad_alloc\<close>.
\<close>

record externals =
  do_binary_op :: "KName \<Rightarrow> k_value \<Rightarrow> k_value \<Rightarrow> k_value result"
  is_truthy :: "k_value \<Rightarrow> bool"
  get_integer :: "k_value \<Rightarrow> int result"
  get_string :: "k_value \<Rightarrow> string result"
  reserve_limit :: nat

text \<open>
  A run of evaluator code from a state: \<open>None\<close> when it never returns, otherwise how it
  ends and the state it leaves. \<open>and_then\<close> continues after a value and passes every
  other ending on, as C++ does with an exception that no handler on the way catches.
\<close>

type_synonym 'a run = "('a result \<times> interp_state) option"

type_synonym interp = "ASTNode \<Rightarrow> interp_state \<Rightarrow> k_value run"

definition and_then :: "'a run \<Rightarrow> ('a \<Rightarrow> interp_state \<Rightarrow> 'b run) \<Rightarrow> 'b run" where
  "and_then m f =
     (case m of
        None \<Rightarrow> None
      | Some (Ok v, st) \<Rightarrow> f v st
      | Some (Err e, st) \<Rightarrow> Some (Err e, st)
      | Some (Fault h, st) \<Rightarrow> Some (Fault h, st)
      | Some (Exit c, st) \<Rightarrow> Some (Exit c, st))"

definition finish :: "'a result \<Rightarrow> interp_state \<Rightarrow> 'a run" where
  "finish r st = Some (r, st)"

text \<open>
  \<^verbatim>\<open>for (const auto& stmt : stmts) ... interpret(stmt.get())\<close>: the statements in
  order, up to the first that does not end with a value; the values in order.
\<close>

fun interpret_each :: "interp \<Rightarrow> ASTNode list \<Rightarrow> interp_state \<Rightarrow> (k_value list) run" where
  "interpret_each interp [] st = finish (Ok []) st"
| "interpret_each interp (stmt # stmts) st =
     and_then (interp stmt st) (\<lambda>v st1.
       and_then (interpret_each interp stmts st1) (\<lambda>vs st2.
         finish (Ok (v # vs)) st2))"

text \<open>
  \<^verbatim>\<open>auto frame = callStack.top()\<close> is read once by a handler; the embedding reads
  and writes the top of the stack where the handler uses \<^verbatim>\<open>frame\<close>. Both are the
  same frame whenever the evaluations in between leave the stack as deep as they found it,
  which every call site of the evaluator does (\<^verbatim>\<open>dropFrame\<close> on the normal and on
  the \<^verbatim>\<open>KiwiError\<close> path).
\<close>

definition update_top :: "(CallStackFrame \<Rightarrow> CallStackFrame) \<Rightarrow> interp_state \<Rightarrow> interp_state" where
  "update_top f st =
     (case callStack st of
        [] \<Rightarrow> st
      | frame # rest \<Rightarrow> st\<lparr>callStack := f frame # rest\<rparr>)"

definition set_variable :: "string \<Rightarrow> k_value \<Rightarrow> interp_state \<Rightarrow> interp_state" where
  "set_variable name v st =
     update_top (\<lambda>frame. frame\<lparr>variables := AList.update name v (variables frame)\<rparr>) st"

definition erase_variable :: "string \<Rightarrow> interp_state \<Rightarrow> interp_state" where
  "erase_variable name st =
     update_top (\<lambda>frame. frame\<lparr>variables := AList.delete name (variables frame)\<rparr>) st"

subsection \<open>\<^verbatim>\<open>KInterpreter::dropFrame\<close>\<close>

text \<open>
  The top frame is popped, its return value goes to the caller, the caller's
  \<^verbatim>\<open>ReturnFlag\<close> is set when the caller has \<^verbatim>\<open>SubFrame\<close>, and the popped
  frame's variables are copied back. \<^verbatim>\<open>top()\<close> needs a frame, and a caller below it.
\<close>

definition dropFrame :: "interp_state \<Rightarrow> k_value run" where
  "dropFrame st =
     (case callStack st of
        frame # callerFrame # rest \<Rightarrow>
          (let callerFrame = callerFrame\<lparr>returnValue := returnValue frame\<rparr>;
               callerFrame = (if isFlagSet SubFrame callerFrame
                              then setFlag ReturnFlag callerFrame else callerFrame);
               callerFrame = updateVariablesInCallerFrame (variables frame) callerFrame
           in finish (Ok (KInt 0)) (st\<lparr>callStack := callerFrame # rest\<rparr>))
      | _ \<Rightarrow> finish (Fault Undefined) st)"

section \<open>The handlers of \<^verbatim>\<open>KInterpreter\<close>\<close>

text \<open>
  Every handler takes the evaluation of its child nodes as the parameter \<open>interp\<close>
  (\<^verbatim>\<open>interpret(child.get())\<close> in the C++), so that what is proved of a handler
  holds for whatever its children do; \<open>interpretNode\<close> at the end of this section closes the
  recursion.

  Modelled from the spec: the operations of \<^verbatim>\<open>Hash\<close> (its class is missing). A hash
  keeps its keys in insertion order, and adding an existing key replaces the value in
  place. The evaluator calls \<^verbatim>\<open>get\<close> after \<^verbatim>\<open>hasKey\<close>, except in one compound
  assignment of \<^verbatim>\<open>handleNestedIndexing\<close>; there a missing key is taken to read a
  default-constructed value.
\<close>

definition hasKey :: "(string \<times> k_value) list \<Rightarrow> string \<Rightarrow> bool" where
  "hasKey h key \<longleftrightarrow> map_of h key \<noteq> None"

definition hash_get :: "(string \<times> k_value) list \<Rightarrow> string \<Rightarrow> k_value" where
  "hash_get h key = (case map_of h key of Some v \<Rightarrow> v | None \<Rightarrow> default_value)"

definition hash_add :: "string \<Rightarrow> k_value \<Rightarrow> (string \<times> k_value) list \<Rightarrow> (string \<times> k_value) list" where
  "hash_add key v h = AList.update key v h"

subsection \<open>Program, literals, identifiers\<close>

definition new_frame :: CallStackFrame where
  "new_frame = \<lparr>variables = [], returnValue = default_value, objectContext = None, flags = 0\<rparr>"

definition visit_ProgramNode :: "interp \<Rightarrow> bool \<Rightarrow> ASTNode list \<Rightarrow> interp_state \<Rightarrow> k_value run" where
  "visit_ProgramNode interp isScript statements st =
     (let st1 = (if \<not> isScript
                 then st\<lparr>callStack :=
                        new_frame\<lparr>variables := [(''global'', KHash [])]\<rparr> # callStack st\<rparr>
                 else st)
      in and_then (interpret_each interp statements st1) (\<lambda>vs st2.
           finish (Ok (if vs = [] then default_value else last vs)) st2))"

definition visit_LiteralNode :: "k_value \<Rightarrow> interp_state \<Rightarrow> k_value run" where
  "visit_LiteralNode v st = finish (Ok v) st"

definition visit_ListLiteralNode :: "interp \<Rightarrow> ASTNode list \<Rightarrow> interp_state \<Rightarrow> k_value run" where
  "visit_ListLiteralNode interp elements st =
     and_then (interpret_each interp elements st) (\<lambda>vs st1. finish (Ok (KList vs)) st1)"

text \<open>
  \<^verbatim>\<open>visit(const IdentifierNode*)\<close>. In an object context a name that starts with
  \<^verbatim>\<open>@\<close> is read from the receiver's instance variables before anything else
  (\<^verbatim>\<open>operator[]\<close> creates the entry when it is missing; \<^verbatim>\<open>name.at(0)\<close> throws
  \<^verbatim>\<open>std::out_of_range\<close> on an empty name). Otherwise: the frame's variables, the
  classes, the lambdas, the lambda table, and integer 0.
\<close>

definition visit_IdentifierNode :: "string \<Rightarrow> interp_state \<Rightarrow> k_value run" where
  "visit_IdentifierNode name st =
     (case callStack st of
        [] \<Rightarrow> finish (Fault Undefined) st
      | frame # rest \<Rightarrow>
          if inObjectContext frame \<and> name = [] then finish (Fault StdOutOfRange) st
          else if inObjectContext frame \<and> hd name = CHR ''@'' then
            (case objectContext frame of
               None \<Rightarrow> finish (Fault Undefined) st
             | Some obj \<Rightarrow>
                 (case map_of (instanceVariables obj) name of
                    Some v \<Rightarrow> finish (Ok v) st
                  | None \<Rightarrow>
                      finish (Ok default_value)
                        (st\<lparr>callStack :=
                           frame\<lparr>objectContext := Some (obj\<lparr>instanceVariables :=
                             AList.update name default_value (instanceVariables obj)\<rparr>)\<rparr>
                           # rest\<rparr>)))
          else
            (case map_of (variables frame) name of
               Some v \<Rightarrow> finish (Ok v) st
             | None \<Rightarrow>
                 if classes st name \<noteq> None then finish (Ok (KClassRef name)) st
                 else if lambdas st name \<noteq> None then finish (Ok (KLambdaRef name)) st
                 else (case lambdaTable st name of
                         Some mappedId \<Rightarrow>
                           if lambdas st mappedId \<noteq> None
                           then finish (Ok (KLambdaRef mappedId)) st
                           else finish (Ok (KInt 0)) st
                       | None \<Rightarrow> finish (Ok (KInt 0)) st)))"

subsection \<open>Ranges\<close>

text \<open>
  \<^verbatim>\<open>for (auto i = start; i != stop; i += step)\<close> of the range literal. As a loop of
  its own it ends only when the steps reach \<open>stop\<close>, so it is a partial function; the
  handler calls it with the step that leads from \<open>start\<close> to \<open>stop\<close>. The counter stays
  between the two ends, so \<^verbatim>\<open>k_int\<close> arithmetic is exact on it.

  Before the loop the handler computes
  \<^verbatim>\<open>numElements = static_cast<size_t>(std::abs(stop - start)) + 1\<close> and reserves that
  many elements. \<^verbatim>\<open>stop - start\<close> and \<^verbatim>\<open>std::abs\<close> are 64-bit signed
  operations: they are defined only when the difference lies strictly between
  \<open>-2^63\<close> and \<open>2^63\<close>. \<^verbatim>\<open>reserve\<close> fails above the limit of the host.
\<close>

partial_function (option) range_loop ::
  "int \<Rightarrow> int \<Rightarrow> int \<Rightarrow> k_value list \<Rightarrow> k_value list option" where
  "range_loop i stop step elements =
     (if i \<noteq> stop then range_loop (i + step) stop step (elements @ [KInt i])
      else Some elements)"

definition visit_RangeLiteralNode ::
  "externals \<Rightarrow> interp \<Rightarrow> ASTNode \<Rightarrow> ASTNode \<Rightarrow> interp_state \<Rightarrow> k_value run" where
  "visit_RangeLiteralNode M interp rangeStart rangeEnd st =
     and_then (interp rangeStart st) (\<lambda>startValue st1.
       and_then (interp rangeEnd st1) (\<lambda>stopValue st2.
         (case (startValue, stopValue) of
            (KInt start, KInt stop) \<Rightarrow>
              (let step = (if stop < start then - 1 else 1)
               in if \<not> \<bar>stop - start\<bar> < 2 ^ 63 then finish (Fault Undefined) st2
                  else
                    (let numElements = nat (\<bar>stop - start\<bar> + 1)
                     in if numElements > reserve_limit M
                        then finish (Fault StdAllocation) st2
                        else
                          (case range_loop start stop step [] of
                             None \<Rightarrow> None
                           | Some elements \<Rightarrow>
                               finish (Ok (KList (elements @ [KInt stop]))) st2)))
          | _ \<Rightarrow> finish (Err (RangeError ''Range value must be an integer.'')) st2)))"

subsection \<open>Print, operators, member access\<close>

definition visit_PrintNode :: "interp \<Rightarrow> ASTNode \<Rightarrow> bool \<Rightarrow> interp_state \<Rightarrow> k_value run" where
  "visit_PrintNode interp expression printNewline st =
     and_then (interp expression st) (\<lambda>v st1.
       finish (Ok (KInt 0)) (st1\<lparr>stdout := stdout st1 @ [(v, printNewline)]\<rparr>))"

definition visit_BinaryOperationNode ::
  "externals \<Rightarrow> interp \<Rightarrow> ASTNode \<Rightarrow> KName \<Rightarrow> ASTNode \<Rightarrow> interp_state \<Rightarrow> k_value run" where
  "visit_BinaryOperationNode M interp left op right st =
     and_then (interp left st) (\<lambda>l st1.
       if op = Ops_And \<and> \<not> is_truthy M l then finish (Ok (KBool False)) st1
       else if op = Ops_Or \<and> is_truthy M l then finish (Ok (KBool True)) st1
       else and_then (interp right st1) (\<lambda>r st2. finish (do_binary_op M op l r) st2))"

text \<open>
  \<^verbatim>\<open>visit(const MemberAccessNode*)\<close>: a hash is looked up and a missing key is a
  \<^verbatim>\<open>HashKeyError\<close>; any other value gives integer 0.
\<close>

definition visit_MemberAccessNode :: "interp \<Rightarrow> ASTNode \<Rightarrow> string \<Rightarrow> interp_state \<Rightarrow> k_value run" where
  "visit_MemberAccessNode interp object memberName st =
     and_then (interp object st) (\<lambda>obj st1.
       (case obj of
          KHash hash \<Rightarrow>
            if \<not> hasKey hash memberName then finish (Err (HashKeyError memberName)) st1
            else finish (Ok (hash_get hash memberName)) st1
        | _ \<Rightarrow> finish (Ok (KInt 0)) st1))"

subsection \<open>Throw and try\<close>

definition throw_fields :: "k_value \<Rightarrow> string \<times> string" where
  "throw_fields errorValue =
     (case errorValue of
        KHash errorHash \<Rightarrow>
          ((case map_of errorHash ''error'' of Some (KString s) \<Rightarrow> s | _ \<Rightarrow> ''KiwiError''),
           (case map_of errorHash ''message'' of Some (KString s) \<Rightarrow> s | _ \<Rightarrow> []))
      | KString s \<Rightarrow> (''KiwiError'', s)
      | _ \<Rightarrow> (''KiwiError'', []))"

definition visit_ThrowNode ::
  "externals \<Rightarrow> interp \<Rightarrow> ASTNode option \<Rightarrow> ASTNode option \<Rightarrow> interp_state \<Rightarrow> k_value run" where
  "visit_ThrowNode M interp errorValue condition st =
     and_then
       (case errorValue of
          None \<Rightarrow> finish (Ok (''KiwiError'', [])) st
        | Some ev \<Rightarrow> and_then (interp ev st) (\<lambda>v st1. finish (Ok (throw_fields v)) st1))
       (\<lambda>fields st1.
          (case condition of
             None \<Rightarrow> finish (Err (KiwiError (fst fields) (snd fields))) st1
           | Some c \<Rightarrow>
               and_then (interp c st1) (\<lambda>cv st2.
                 if is_truthy M cv then finish (Err (KiwiError (fst fields) (snd fields))) st2
                 else finish (Ok (KInt 0)) st2)))"

text \<open>
  \<^verbatim>\<open>visit(const TryNode*)\<close>. The C++ \<^verbatim>\<open>try\<close> block holds the try body only and
  its handler catches \<^verbatim>\<open>KiwiError\<close>; the catch body runs inside that handler, and
  the finally body is the code after the \<^verbatim>\<open>try\<close> statement. So the finally body
  runs when the try body ends with a value, when a \<^verbatim>\<open>KiwiError\<close> of the try body
  meets an empty catch body, and when the catch body ends with a value; whatever else
  leaves the try or the catch body leaves the handler at once.
\<close>

definition run_finally :: "interp \<Rightarrow> ASTNode list \<Rightarrow> interp_state \<Rightarrow> k_value run" where
  "run_finally interp finallyBody st =
     and_then (interpret_each interp finallyBody st) (\<lambda>vs st1. finish (Ok (KInt 0)) st1)"

definition bind_catch_name :: "string option \<Rightarrow> k_value \<Rightarrow> interp_state \<Rightarrow> interp_state" where
  "bind_catch_name name v st = (case name of None \<Rightarrow> st | Some n \<Rightarrow> set_variable n v st)"

definition erase_catch_name :: "string option \<Rightarrow> interp_state \<Rightarrow> interp_state" where
  "erase_catch_name name st = (case name of None \<Rightarrow> st | Some n \<Rightarrow> erase_variable n st)"

definition visit_TryNode ::
  "interp \<Rightarrow> ASTNode list \<Rightarrow> ASTNode list \<Rightarrow> ASTNode list \<Rightarrow> string option \<Rightarrow> string option
     \<Rightarrow> interp_state \<Rightarrow> k_value run" where
  "visit_TryNode interp tryBody catchBody finallyBody errorType errorMessage st =
     (case interpret_each interp tryBody st of
        None \<Rightarrow> None
      | Some (Ok vs, st1) \<Rightarrow> run_finally interp finallyBody st1
      | Some (Err e, st1) \<Rightarrow>
          if catchBody \<noteq> [] then
            (case callStack st1 of
               [] \<Rightarrow> finish (Fault Undefined) st1
             | frame # rest \<Rightarrow>
                 (let st2 = bind_catch_name errorType (KString (getError e)) st1;
                      st3 = bind_catch_name errorMessage (KString (getMessage e)) st2
                  in and_then (interpret_each interp catchBody st3) (\<lambda>vs st4.
                       run_finally interp finallyBody
                         (erase_catch_name errorMessage (erase_catch_name errorType st4)))))
          else run_finally interp finallyBody st1
      | Some (Fault h, st1) \<Rightarrow> Some (Fault h, st1)
      | Some (Exit c, st1) \<Rightarrow> Some (Exit c, st1))"

subsection \<open>Indexing\<close>

text \<open>
  The store of one list element, shared by the branches of
  \<^verbatim>\<open>handleNestedIndexing\<close>: \<^verbatim>\<open>Ops_Assign\<close> stores the new value, any other
  operator stores \<^verbatim>\<open>do_binary_op(op, oldValue, newValue)\<close>.
\<close>

definition store_element ::
  "externals \<Rightarrow> KName \<Rightarrow> k_value list \<Rightarrow> nat \<Rightarrow> k_value \<Rightarrow> k_value result" where
  "store_element M op elements i newValue =
     (if op = Ops_Assign then Ok (KList (elements[i := newValue]))
      else map_result (\<lambda>v. KList (elements[i := v]))
             (do_binary_op M op (elements ! i) newValue))"

definition store_entry ::
  "externals \<Rightarrow> KName \<Rightarrow> (string \<times> k_value) list \<Rightarrow> string \<Rightarrow> k_value \<Rightarrow> k_value result" where
  "store_entry M op hash key newValue =
     (if op = Ops_Assign then Ok (KHash (hash_add key newValue hash))
      else map_result (\<lambda>v. KHash (hash_add key v hash))
             (do_binary_op M op (hash_get hash key) newValue))"

text \<open>
  \<^verbatim>\<open>KInterpreter::handleNestedIndexing(indexExpr, baseObj, op, newValue)\<close>. The
  function reads \<^verbatim>\<open>indexExpr\<close> only through \<^verbatim>\<open>indexExpr->indexExpression\<close>,
  which is the third argument here, and branches on its kind; the recursive call on
  \<^verbatim>\<open>nestedIndexExpr\<close> passes that node's index expression. In the first branch the
  index is narrowed to \<^verbatim>\<open>int\<close>; in the others it stays a \<^verbatim>\<open>k_int\<close>.

  The C++ stores into the list or hash that \<^verbatim>\<open>baseObj\<close> points to, so every holder
  of that container (the frame's variable among them) sees the store, also when the call
  comes from a read (\<^verbatim>\<open>visit(const IndexingNode*)\<close> passes \<^verbatim>\<open>Ops_Assign\<close> and
  a default-constructed value). Containers are held by value here: the function returns
  the updated container, which is the value the C++ returns, and the state keeps its own
  copies as they were. Nothing proved below goes through this function.
\<close>

fun handleNestedIndexing ::
  "externals \<Rightarrow> interp \<Rightarrow> ASTNode \<Rightarrow> k_value \<Rightarrow> KName \<Rightarrow> k_value \<Rightarrow> interp_state
     \<Rightarrow> k_value run" where
  "handleNestedIndexing M interp (IndexingNode nestedObject nestedIndexExpression)
       baseObj op newValue st =
     and_then (interp nestedIndexExpression st) (\<lambda>nestedIndex st1.
       (case (baseObj, nestedIndex) of
          (KList elements, KInt n) \<Rightarrow>
            and_then (finish (get_integer M nestedIndex) st1) (\<lambda>gi st1.
              (let indexValue = to_int gi
               in if indexValue < 0 \<or> indexValue \<ge> int (length elements)
                  then finish (Err (IndexError
                         ''The index was outside the bounds of the list.'')) st1
                  else if is_IndexingNode nestedIndexExpression
                  then and_then
                         (handleNestedIndexing M interp nestedIndexExpression
                            (elements ! nat indexValue) op newValue st1)
                         (\<lambda>nestedValue st2.
                            finish (Ok (KList (elements[nat indexValue := nestedValue]))) st2)
                  else finish (store_element M op elements (nat indexValue) newValue) st1))
        | _ \<Rightarrow> finish (Err (IndexError ''Nested index does not target a list.'')) st1))"
| "handleNestedIndexing M interp (IdentifierNode key) baseObj op newValue st =
     (case baseObj of
        KHash hash \<Rightarrow>
          if hasKey hash key then finish (store_entry M op hash key newValue) st
          else finish (Err (HashKeyError key)) st
      | KList elements \<Rightarrow>
          and_then (interp (IdentifierNode key) st) (\<lambda>identifier st1.
            and_then (finish (get_integer M identifier) st1) (\<lambda>listIndex st1.
              if listIndex < 0 \<or> listIndex \<ge> int (length elements)
              then finish (Err (IndexError
                     ''The index was outside the bounds of the list.'')) st1
              else finish (store_element M op elements (nat listIndex) newValue) st1))
      | _ \<Rightarrow> finish (Err (IndexError ''Invalid index expression.'')) st)"
| "handleNestedIndexing M interp (LiteralNode lit) baseObj op newValue st =
     and_then (interp (LiteralNode lit) st) (\<lambda>literal st1.
       (case (baseObj, literal) of
          (KList elements, KInt n) \<Rightarrow>
            and_then (finish (get_integer M literal) st1) (\<lambda>listIndex st1.
              if listIndex < 0 \<or> listIndex \<ge> int (length elements)
              then finish (Err (IndexError
                     ''The index was outside the bounds of the list.'')) st1
              else finish (store_element M op elements (nat listIndex) newValue) st1)
        | (KHash hash, KString s) \<Rightarrow>
            and_then (finish (get_string M literal) st1) (\<lambda>key st1.
              finish (store_entry M op hash key newValue) st1)
        | _ \<Rightarrow> finish (Err (IndexError ''Invalid index expression.'')) st1))"
| "handleNestedIndexing M interp node baseObj op newValue st =
     finish (Err (IndexError ''Invalid index expression.'')) st"

text \<open>
  \<^verbatim>\<open>visit(const IndexingNode*)\<close>. The object and the index are evaluated first. When
  the index expression is itself an indexing node, that node goes to
  \<^verbatim>\<open>handleNestedIndexing\<close> with \<^verbatim>\<open>Ops_Assign\<close> and a default-constructed value.
  Otherwise a list is read at \<^verbatim>\<open>get_integer(indexValue)\<close> after the check
  \<^verbatim>\<open>index < 0 || index >= size\<close>: no length is added to a negative index here.
\<close>

definition visit_IndexingNode ::
  "externals \<Rightarrow> interp \<Rightarrow> ASTNode option \<Rightarrow> ASTNode \<Rightarrow> interp_state \<Rightarrow> k_value run" where
  "visit_IndexingNode M interp indexedObject indexExpression st =
     (case indexedObject of
        None \<Rightarrow> finish (Err (InvalidOperationError ''Nothing to index.'')) st
      | Some objectNode \<Rightarrow>
          and_then (interp objectNode st) (\<lambda>object st1.
            and_then (interp indexExpression st1) (\<lambda>indexValue st2.
              (case indexExpression of
                 IndexingNode nestedObject nestedIndexExpression \<Rightarrow>
                   handleNestedIndexing M interp nestedIndexExpression object Ops_Assign
                     default_value st2
               | _ \<Rightarrow>
                   (case object of
                      KList elements \<Rightarrow>
                        and_then (finish (get_integer M indexValue) st2) (\<lambda>index st2.
                          if index < 0 \<or> index \<ge> int (length elements)
                          then finish (Err (RangeError
                                 ''The index was outside the bounds of the list.'')) st2
                          else finish (Ok (elements ! nat index)) st2)
                    | KHash hash \<Rightarrow>
                        and_then (finish (get_string M indexValue) st2) (\<lambda>key st2.
                          if \<not> hasKey hash key then finish (Err (HashKeyError key)) st2
                          else finish (Ok (hash_get hash key)) st2)
                    | KString string \<Rightarrow>
                        and_then (finish (get_integer M indexValue) st2) (\<lambda>index st2.
                          if index < 0 \<or> index \<ge> int (length string)
                          then finish (Err (RangeError
                                 ''The index was outside the bounds of the string.'')) st2
                          else finish (Ok (KString [string ! nat index])) st2)
                    | _ \<Rightarrow>
                        finish (Err (IndexError ''Invalid indexing operation.'')) st2)))))"

subsection \<open>The list built-in \<^verbatim>\<open>map\<close>\<close>



text \<open>
  The \<^verbatim>\<open>map\<close> built-in as the specification words it, for comparison: the whole body
  is interpreted for each element and the value of its final statement is what is
  collected, one value per element (the unit value for a body without statements).
\<close>

fun map_elements_spec ::
  "interp \<Rightarrow> string \<Rightarrow> ASTNode list \<Rightarrow> k_value list \<Rightarrow> k_value list \<Rightarrow> interp_state
     \<Rightarrow> (k_value list) run" where
  "map_elements_spec interp mapVariable stmts [] resultList st = finish (Ok resultList) st"
| "map_elements_spec interp mapVariable stmts (element # elements) resultList st =
     and_then (interpret_each interp stmts (set_variable mapVariable element st))
       (\<lambda>vs st1. map_elements_spec interp mapVariable stmts elements
                    (resultList @ [if vs = [] then default_value else last vs]) st1)"


subsection \<open>\<^verbatim>\<open>KInterpreter::interpret\<close>\<close>

text \<open>
  The dispatch on the node kind, closing the recursion of the handlers. The first argument
  bounds the nesting depth of the evaluation: \<open>None\<close> at depth 0 stands for an
  evaluation that has not returned within the bound.
\<close>

primrec interpretNode :: "externals \<Rightarrow> nat \<Rightarrow> ASTNode \<Rightarrow> interp_state \<Rightarrow> k_value run" where
  "interpretNode M 0 = (\<lambda>node st. None)"
| "interpretNode M (Suc fuel) = (\<lambda>node st.
     (case node of
        NoOpNode \<Rightarrow> finish (Ok (KInt 0)) st
      | ProgramNode isScript statements \<Rightarrow>
          visit_ProgramNode (interpretNode M fuel) isScript statements st
      | LiteralNode v \<Rightarrow> visit_LiteralNode v st
      | ListLiteralNode elements \<Rightarrow> visit_ListLiteralNode (interpretNode M fuel) elements st
      | RangeLiteralNode rangeStart rangeEnd \<Rightarrow>
          visit_RangeLiteralNode M (interpretNode M fuel) rangeStart rangeEnd st
      | IdentifierNode name \<Rightarrow> visit_IdentifierNode name st
      | PrintNode expression printNewline \<Rightarrow>
          visit_PrintNode (interpretNode M fuel) expression printNewline st
      | BinaryOperationNode left op right \<Rightarrow>
          visit_BinaryOperationNode M (interpretNode M fuel) left op right st
      | MemberAccessNode object memberName \<Rightarrow>
          visit_MemberAccessNode (interpretNode M fuel) object memberName st
      | IndexingNode indexedObject indexExpression \<Rightarrow>
          visit_IndexingNode M (interpretNode M fuel) indexedObject indexExpression st
      | ThrowNode errorValue condition \<Rightarrow>
          visit_ThrowNode M (interpretNode M fuel) errorValue condition st
      | TryNode tryBody catchBody finallyBody errorType errorMessage \<Rightarrow>
          visit_TryNode (interpretNode M fuel) tryBody catchBody finallyBody
            errorType errorMessage st))"

subsection \<open>A facade for the scenarios\<close>

text \<open>
  Modelled from the spec: the math facade and the accessors, which are missing from the
  sources, as far as the scenarios evaluated below need them. \<open>is_truthy\<close> follows the
  spec (non-zero numbers, non-empty strings, lists and hashes, true booleans);
  \<open>do_binary_op\<close> is given for the product of two Integers only and refuses every other
  application; \<open>get_integer\<close> and \<open>get_string\<close> return what an Integer and a String
  carry and fail with \<^verbatim>\<open>ConversionError\<close> on other values. The limit of
  \<^verbatim>\<open>reserve\<close> is put at \<open>2^59 = 576460752303423488\<close> elements, which no 64-bit
  host exceeds: a value
  holds at least a shared pointer, 16 bytes, and \<^verbatim>\<open>max_size()\<close> is at most
  \<open>2^63\<close> bytes divided by the size of an element.
\<close>

definition spec_is_truthy :: "k_value \<Rightarrow> bool" where
  "spec_is_truthy v =
     (case v of
        KInt n \<Rightarrow> n \<noteq> 0
      | KDouble w \<Rightarrow> w \<noteq> 0 \<and> w \<noteq> push_bit 63 1
      | KBool b \<Rightarrow> b
      | KString s \<Rightarrow> s \<noteq> []
      | KList xs \<Rightarrow> xs \<noteq> []
      | KHash h \<Rightarrow> h \<noteq> []
      | _ \<Rightarrow> False)"

definition spec_do_binary_op :: "KName \<Rightarrow> k_value \<Rightarrow> k_value \<Rightarrow> k_value result" where
  "spec_do_binary_op op a b =
     (case (op, a, b) of
        (Ops_Multiply, KInt x, KInt y) \<Rightarrow>
          if - (2 ^ 63) \<le> x * y \<and> x * y < 2 ^ 63 then Ok (KInt (x * y))
          else Fault Undefined
      | _ \<Rightarrow> Err (InvalidOperationError ''Invalid operator.''))"

definition spec_get_integer :: "k_value \<Rightarrow> int result" where
  "spec_get_integer v =
     (case v of KInt n \<Rightarrow> Ok n | _ \<Rightarrow> Err (ConversionError ''Expected an Integer value.''))"

definition spec_get_string :: "k_value \<Rightarrow> string result" where
  "spec_get_string v =
     (case v of KString s \<Rightarrow> Ok s | _ \<Rightarrow> Err (ConversionError ''Expected a String value.''))"

definition MathImpl :: externals where
  "MathImpl = \<lparr>do_binary_op = spec_do_binary_op, is_truthy = spec_is_truthy,
                get_integer = spec_get_integer, get_string = spec_get_string,
                reserve_limit = 576460752303423488\<rparr>"

text \<open>The state before a program runs: no frame, empty registries, nothing printed.\<close>

definition initial_state :: interp_state where
  "initial_state =
     \<lparr>callStack = [], classes = (\<lambda>n. None), lambdas = (\<lambda>n. None),
      lambdaTable = (\<lambda>n. None), stdout = []\<rparr>"

section \<open>Inputs of the worked examples\<close>

text \<open>A callee frame above a caller that has \<^verbatim>\<open>SubFrame\<close>; both bind \<open>x\<close>.\<close>

definition example_callee :: CallStackFrame where
  "example_callee =
     \<lparr>variables = [(''x'', KInt 1), (''y'', KInt 2)], returnValue = KInt 42,
      objectContext = None, flags = 0\<rparr>"

definition example_caller :: CallStackFrame where
  "example_caller =
     \<lparr>variables = [(''x'', KInt 0), (''z'', KInt 5)], returnValue = KInt 0,
      objectContext = None, flags = SubFrame\<rparr>"

definition example_stack :: interp_state where
  "example_stack = initial_state\<lparr>callStack := [example_callee, example_caller]\<rparr>"

text \<open>
  A frame that binds \<open>x\<close>, with a class \<open>A\<close>, a lambda \<open>f\<close> and the lambda table
  entry \<open>g\<close> for \<open>f\<close>; and a frame in the object context of an object whose instance
  variable \<^verbatim>\<open>@x\<close> is 7.
\<close>

definition example_lambda :: KLambda where
  "example_lambda =
     \<lparr>parameters = [(''x'', KInt 0)], defaultParameters = [],
      body = [BinaryOperationNode (IdentifierNode ''x'') Ops_Multiply (LiteralNode (KInt 2))]\<rparr>"

definition example_env :: interp_state where
  "example_env =
     \<lparr>callStack = [new_frame\<lparr>variables := [(''x'', KInt 3)]\<rparr>],
      classes = (\<lambda>n. if n = ''A'' then Some \<lparr>kclass_name = ''A'', baseClass = []\<rparr> else None),
      lambdas = (\<lambda>n. if n = ''f'' then Some example_lambda else None),
      lambdaTable = (\<lambda>n. if n = ''g'' then Some ''f'' else None),
      stdout = []\<rparr>"

definition example_object_env :: interp_state where
  "example_object_env =
     initial_state\<lparr>callStack :=
       [\<lparr>variables = [], returnValue = KInt 0,
         objectContext = Some \<lparr>className = ''A'', instanceVariables = [(''@x'', KInt 7)],
                                object_identifier = ''a''\<rparr>,
         flags = InObject\<rparr>]\<rparr>"

text \<open>
  A state with one empty frame, and a lambda of two statements: \<open>x\<close>, then \<open>x * 2\<close>
  (\<open>example_lambda\<close> above is \<^verbatim>\<open>(x) -> x * 2\<close>).
\<close>

definition one_frame :: interp_state where
  "one_frame = initial_state\<lparr>callStack := [new_frame]\<rparr>"


text \<open>
  Scenario S4 of the specification (\<^verbatim>\<open>try throw "oops" catch (e, m) println m finally
  println "done" end\<close>), and a try statement whose catch body throws.
\<close>

definition scenario_S4 :: ASTNode where
  "scenario_S4 =
     TryNode [ThrowNode (Some (LiteralNode (KString ''oops''))) None]
             [PrintNode (IdentifierNode ''m'') True]
             [PrintNode (LiteralNode (KString ''done'')) True]
             (Some ''e'') (Some ''m'')"

definition catch_throws :: ASTNode where
  "catch_throws =
     TryNode [ThrowNode (Some (LiteralNode (KString ''a''))) None]
             [ThrowNode (Some (LiteralNode (KString ''b''))) None]
             [PrintNode (LiteralNode (KString ''done'')) True]
             None None"

text \<open>What a run printed, with how it ended.\<close>

definition printed :: "k_value run \<Rightarrow> (k_value result \<times> (k_value \<times> bool) list) option" where
  "printed r = map_option (\<lambda>(res, st). (res, stdout st)) r"


section \<open>Helper lemmas: machine integers and the slice loops\<close>

lemma to_int_id: "- (2 ^ 31) \<le> x \<Longrightarrow> x < 2 ^ 31 \<Longrightarrow> to_int x = x"
  unfolding to_int_def by (simp add: signed_take_bit_int_eq_self)






section \<open>Frame teardown\<close>

lemma updateVariables_fields:
  "returnValue (updateVariablesInCallerFrame vars cf) = returnValue cf"
  "flags (updateVariablesInCallerFrame vars cf) = flags cf"
  "objectContext (updateVariablesInCallerFrame vars cf) = objectContext cf"
  by (induction vars arbitrary: cf) simp_all

lemma updateVariables_map_of:
  "distinct (map fst vars) \<Longrightarrow>
   map_of (variables (updateVariablesInCallerFrame vars cf)) n =
     (if map_of vars n \<noteq> None \<and> map_of (variables cf) n \<noteq> None
      then map_of vars n else map_of (variables cf) n)"
proof (induction vars arbitrary: cf)
  case Nil
  then show ?case by simp
next
  case (Cons var vars)
  obtain k v where var: "var = (k, v)" by (cases var)
  from Cons.prems var have k: "map_of vars k = None" and d: "distinct (map fst vars)"
    by (auto simp: map_of_eq_None_iff)
  show ?case
    using k by (auto simp: Cons.IH[OF d] var shouldUpdateFrameVariables_def update_conv')
qed


text \<open>
  Claim C6. \<^verbatim>\<open>dropFrame\<close>, on a stack with a frame and its caller below it, pops the
  frame and leaves the caller with: the popped frame's return value in its return-value
  slot; its flags with \<^verbatim>\<open>ReturnFlag\<close> added if and only if it has \<^verbatim>\<open>SubFrame\<close>
  (otherwise its flags are as before); and its variables, where exactly the names bound
  in both the popped frame and the caller now carry the popped frame's value, every
  other name being as it was in the caller (a name only the popped frame has is not
  added). The popped frame's variables are a \<^verbatim>\<open>std::map\<close>: one entry per name.
\<close>

theorem dropFrame_effect:
  assumes "callStack st = frame # callerFrame # rest"
    and "distinct (map fst (variables frame))"
  shows "\<exists>callerFrame'.
           dropFrame st = Some (Ok (KInt 0), st\<lparr>callStack := callerFrame' # rest\<rparr>)
         \<and> returnValue callerFrame' = returnValue frame
         \<and> flags callerFrame' =
             (if isFlagSet SubFrame callerFrame then flags callerFrame OR ReturnFlag
              else flags callerFrame)
         \<and> objectContext callerFrame' = objectContext callerFrame
         \<and> (\<forall>n. map_of (variables callerFrame') n =
               (if map_of (variables frame) n \<noteq> None \<and> map_of (variables callerFrame) n \<noteq> None
                then map_of (variables frame) n
                else map_of (variables callerFrame) n))"
proof -
  define cf1 where "cf1 = callerFrame\<lparr>returnValue := returnValue frame\<rparr>"
  define cf2 where "cf2 = (if isFlagSet SubFrame cf1 then setFlag ReturnFlag cf1 else cf1)"
  define cf3 where "cf3 = updateVariablesInCallerFrame (variables frame) cf2"
  have run: "dropFrame st = Some (Ok (KInt 0), st\<lparr>callStack := cf3 # rest\<rparr>)"
    using assms(1) by (simp add: dropFrame_def finish_def Let_def cf1_def cf2_def cf3_def)
  have rv: "returnValue cf3 = returnValue frame"
    by (simp add: cf3_def cf2_def cf1_def updateVariables_fields setFlag_def)
  have fl: "flags cf3 =
      (if isFlagSet SubFrame callerFrame then flags callerFrame OR ReturnFlag
       else flags callerFrame)"
    by (simp add: cf3_def cf2_def cf1_def updateVariables_fields setFlag_def isFlagSet_def)
  have oc: "objectContext cf3 = objectContext callerFrame"
    by (simp add: cf3_def cf2_def cf1_def updateVariables_fields setFlag_def)
  have vars2: "variables cf2 = variables callerFrame"
    by (simp add: cf2_def cf1_def setFlag_def)
  have vs: "\<forall>n. map_of (variables cf3) n =
      (if map_of (variables frame) n \<noteq> None \<and> map_of (variables callerFrame) n \<noteq> None
       then map_of (variables frame) n else map_of (variables callerFrame) n)"
    unfolding cf3_def by (simp only: updateVariables_map_of[OF assms(2)] vars2) simp
  from run rv fl oc vs show ?thesis by blast
qed

theorem dropFrame_effect_witness:
  "\<exists>callerFrame'.
      dropFrame example_stack = Some (Ok (KInt 0), example_stack\<lparr>callStack := [callerFrame']\<rparr>)
    \<and> returnValue callerFrame' = KInt 42
    \<and> flags callerFrame' = SubFrame OR ReturnFlag
    \<and> map_of (variables callerFrame') ''x'' = Some (KInt 1)
    \<and> map_of (variables callerFrame') ''y'' = None
    \<and> map_of (variables callerFrame') ''z'' = Some (KInt 5)"
proof -
  have c: "callStack example_stack = example_callee # example_caller # []"
    by (simp add: example_stack_def)
  have d: "distinct (map fst (variables example_callee))"
    by (simp add: example_callee_def)
  from dropFrame_effect[OF c d] obtain cf where
    run: "dropFrame example_stack = Some (Ok (KInt 0), example_stack\<lparr>callStack := [cf]\<rparr>)"
    and rv: "returnValue cf = returnValue example_callee"
    and fl: "flags cf = (if isFlagSet SubFrame example_caller
                         then flags example_caller OR ReturnFlag else flags example_caller)"
    and vs: "\<forall>n. map_of (variables cf) n =
               (if map_of (variables example_callee) n \<noteq> None
                   \<and> map_of (variables example_caller) n \<noteq> None
                then map_of (variables example_callee) n
                else map_of (variables example_caller) n)"
    by blast
  have "returnValue cf = KInt 42" using rv by (simp add: example_callee_def)
  moreover have "flags cf = SubFrame OR ReturnFlag"
    using fl by (simp add: example_caller_def isFlagSet_def)
  moreover have "map_of (variables cf) ''x'' = Some (KInt 1)"
    by (simp add: vs example_callee_def example_caller_def)
  moreover have "map_of (variables cf) ''y'' = None"
    by (simp add: vs example_callee_def example_caller_def)
  moreover have "map_of (variables cf) ''z'' = Some (KInt 5)"
    by (simp add: vs example_callee_def example_caller_def)
  ultimately show ?thesis using run by blast
qed

section \<open>Identifiers, member access, try without catch\<close>

text \<open>
  Claim C7, as amended. For an identifier evaluated as an expression on a non-empty call
  stack, unless the top frame is in an object context and the name is empty or begins with
  \<^verbatim>\<open>@\<close> (then the handler goes to the receiver's instance variables first), the name
  is resolved in this order, without any error and without changing the state: the top
  frame's variable of that name; else a \<^verbatim>\<open>ClassRef\<close> when the class registry has the
  name; else a \<^verbatim>\<open>LambdaRef\<close> to the name when the lambda registry has it; else a
  \<^verbatim>\<open>LambdaRef\<close> to the mapped id when the lambda table maps the name to a registered
  lambda; else integer 0.
\<close>

theorem identifier_resolution:
  assumes "callStack st = frame # rest"
    and "\<not> (inObjectContext frame \<and> (name = [] \<or> hd name = CHR ''@''))"
  shows "(\<forall>v. map_of (variables frame) name = Some v \<longrightarrow>
            visit_IdentifierNode name st = Some (Ok v, st))
       \<and> (map_of (variables frame) name = None \<and> classes st name \<noteq> None \<longrightarrow>
            visit_IdentifierNode name st = Some (Ok (KClassRef name), st))
       \<and> (map_of (variables frame) name = None \<and> classes st name = None
            \<and> lambdas st name \<noteq> None \<longrightarrow>
            visit_IdentifierNode name st = Some (Ok (KLambdaRef name), st))
       \<and> (\<forall>mappedId. map_of (variables frame) name = None \<and> classes st name = None
            \<and> lambdas st name = None \<and> lambdaTable st name = Some mappedId
            \<and> lambdas st mappedId \<noteq> None \<longrightarrow>
            visit_IdentifierNode name st = Some (Ok (KLambdaRef mappedId), st))
       \<and> (map_of (variables frame) name = None \<and> classes st name = None
            \<and> lambdas st name = None
            \<and> (\<forall>mappedId. lambdaTable st name = Some mappedId \<longrightarrow> lambdas st mappedId = None)
            \<longrightarrow> visit_IdentifierNode name st = Some (Ok (KInt 0), st))"
  using assms
  by (auto simp add: visit_IdentifierNode_def finish_def split: option.splits)

text \<open>
  Claim C10. When the receiver of a member access evaluates to a value that is not a hash,
  the member access returns integer 0 and raises nothing. A hash receiver gives the value
  stored under the member name, or fails with \<^verbatim>\<open>HashKeyError\<close> when the name is not a
  key; and whenever the member access itself ends in a \<^verbatim>\<open>KiwiError\<close> (its receiver
  having been evaluated), the receiver is a hash without that key and the error is that
  \<^verbatim>\<open>HashKeyError\<close>.
\<close>

theorem member_access_non_hash:
  assumes "interp object st = Some (Ok v, st1)"
  shows "((\<forall>hash. v \<noteq> KHash hash) \<longrightarrow>
            visit_MemberAccessNode interp object memberName st = Some (Ok (KInt 0), st1))
       \<and> (\<forall>hash. v = KHash hash \<and> map_of hash memberName = None \<longrightarrow>
            visit_MemberAccessNode interp object memberName st
              = Some (Err (HashKeyError memberName), st1))
       \<and> (\<forall>hash x. v = KHash hash \<and> map_of hash memberName = Some x \<longrightarrow>
            visit_MemberAccessNode interp object memberName st = Some (Ok x, st1))
       \<and> (\<forall>e st'. visit_MemberAccessNode interp object memberName st = Some (Err e, st') \<longrightarrow>
            e = HashKeyError memberName
            \<and> (\<exists>hash. v = KHash hash \<and> map_of hash memberName = None))"
  using assms
  by (cases v)
     (auto simp add: visit_MemberAccessNode_def and_then_def finish_def hasKey_def hash_get_def)


text \<open>
  The three theorems at concrete inputs, and the input at which the resolution order
  alone (claim C7 as first stated) gives the wrong value: in an object context
  \<^verbatim>\<open>@x\<close> is neither a variable of the frame nor a class nor a lambda, and it
  evaluates to the instance variable 7, not to integer 0.
\<close>

theorem identifier_resolution_witness:
  "visit_IdentifierNode ''x'' example_env = Some (Ok (KInt 3), example_env)
 \<and> visit_IdentifierNode ''A'' example_env = Some (Ok (KClassRef ''A''), example_env)
 \<and> visit_IdentifierNode ''f'' example_env = Some (Ok (KLambdaRef ''f''), example_env)
 \<and> visit_IdentifierNode ''g'' example_env = Some (Ok (KLambdaRef ''f''), example_env)
 \<and> visit_IdentifierNode ''h'' example_env = Some (Ok (KInt 0), example_env)"
proof -
  have c: "callStack example_env = new_frame\<lparr>variables := [(''x'', KInt 3)]\<rparr> # []"
    by (simp add: example_env_def)
  have o: "\<not> (inObjectContext (new_frame\<lparr>variables := [(''x'', KInt 3)]\<rparr>) \<and> (n = [] \<or> hd n = CHR ''@''))" for n
    by (simp add: inObjectContext_def isFlagSet_def new_frame_def InObject_def)
  show ?thesis
    using identifier_resolution[OF c o, of "''x''"] identifier_resolution[OF c o, of "''A''"]
      identifier_resolution[OF c o, of "''f''"] identifier_resolution[OF c o, of "''g''"]
      identifier_resolution[OF c o, of "''h''"]
    by (simp add: example_env_def)
qed

theorem identifier_instance_variable_counterexample:
  "map_of (variables (hd (callStack example_object_env))) ''@x'' = None
 \<and> classes example_object_env ''@x'' = None
 \<and> lambdas example_object_env ''@x'' = None
 \<and> lambdaTable example_object_env ''@x'' = None
 \<and> visit_IdentifierNode ''@x'' example_object_env = Some (Ok (KInt 7), example_object_env)"
  by (simp add: example_object_env_def initial_state_def visit_IdentifierNode_def finish_def
      inObjectContext_def isFlagSet_def InObject_def)

theorem member_access_non_hash_witness:
  "visit_MemberAccessNode (interpretNode MathImpl 1) (LiteralNode (KInt 5)) ''size'' initial_state
     = Some (Ok (KInt 0), initial_state)
 \<and> visit_MemberAccessNode (interpretNode MathImpl 1) (LiteralNode (KHash [(''a'', KInt 1)])) ''b''
       initial_state
     = Some (Err (HashKeyError ''b''), initial_state)"
proof -
  have a: "interpretNode MathImpl 1 (LiteralNode v) initial_state = Some (Ok v, initial_state)" for v
    by (simp add: visit_LiteralNode_def finish_def)
  have "visit_MemberAccessNode (interpretNode MathImpl 1) (LiteralNode (KInt 5)) ''size''
          initial_state = Some (Ok (KInt 0), initial_state)"
    by (rule member_access_non_hash[where interp = "interpretNode MathImpl 1"
          and object = "LiteralNode (KInt 5)" and st = initial_state, OF a,
          THEN conjunct1, rule_format]) simp
  moreover have "visit_MemberAccessNode (interpretNode MathImpl 1)
          (LiteralNode (KHash [(''a'', KInt 1)])) ''b'' initial_state
          = Some (Err (HashKeyError ''b''), initial_state)"
    by (rule member_access_non_hash[where interp = "interpretNode MathImpl 1"
          and object = "LiteralNode (KHash [(''a'', KInt 1)])" and st = initial_state, OF a,
          THEN conjunct2, THEN conjunct1, rule_format]) (rule conjI[OF refl], simp)
  ultimately show ?thesis by simp
qed


section \<open>Range literals\<close>

text \<open>
  The loop of the range literal returns when it is started with the step that leads to
  its stop: it then yields the integers from the start up (or down) to the one before
  the stop.
\<close>

lemma range_loop_up:
  "range_loop i (i + int n) 1 acc = Some (acc @ map KInt [i..i + int n - 1])"
proof (induction n arbitrary: i acc)
  case 0
  show ?case by (subst range_loop.simps) simp
next
  case (Suc n)
  have "range_loop i (i + int (Suc n)) 1 acc
          = range_loop (i + 1) ((i + 1) + int n) 1 (acc @ [KInt i])"
    by (subst range_loop.simps) (simp add: algebra_simps)
  also have "\<dots> = Some ((acc @ [KInt i]) @ map KInt [i + 1..(i + 1) + int n - 1])"
    by (rule Suc.IH)
  also have "[i..i + int (Suc n) - 1] = i # [i + 1..(i + 1) + int n - 1]"
    by (subst upto_rec1) (simp_all add: algebra_simps)
  then have "(acc @ [KInt i]) @ map KInt [i + 1..(i + 1) + int n - 1]
               = acc @ map KInt [i..i + int (Suc n) - 1]"
    by simp
  finally show ?case .
qed

lemma range_loop_down:
  "range_loop i (i - int n) (- 1) acc = Some (acc @ map KInt (rev [i - int n + 1..i]))"
proof (induction n arbitrary: i acc)
  case 0
  show ?case by (subst range_loop.simps) simp
next
  case (Suc n)
  have "range_loop i (i - int (Suc n)) (- 1) acc
          = range_loop (i - 1) ((i - 1) - int n) (- 1) (acc @ [KInt i])"
    by (subst range_loop.simps) (simp add: algebra_simps)
  also have "\<dots> = Some ((acc @ [KInt i]) @ map KInt (rev [(i - 1) - int n + 1..i - 1]))"
    by (rule Suc.IH)
  also have "[i - int (Suc n) + 1..i] = [(i - 1) - int n + 1..i - 1] @ [i]"
    by (subst upto_rec2) (simp_all add: algebra_simps)
  then have "(acc @ [KInt i]) @ map KInt (rev [(i - 1) - int n + 1..i - 1])
               = acc @ map KInt (rev [i - int (Suc n) + 1..i])"
    by simp
  finally show ?case .
qed

lemma range_loop_result:
  "range_loop a b (if b < a then - 1 else 1) []
     = Some (map KInt (if a \<le> b then [a..b - 1] else rev [b + 1..a]))"
proof (cases "a \<le> b")
  case True
  then have "b = a + int (nat (b - a))" by simp
  then show ?thesis using True range_loop_up[of a "nat (b - a)" "[]"] by simp
next
  case False
  then have "b = a - int (nat (a - b))" by simp
  then show ?thesis using False range_loop_down[of a "nat (a - b)" "[]"] by simp
qed

lemma range_elements:
  fixes a b :: int
  defines "xs \<equiv> (if a \<le> b then [a..b] else rev [b..a])"
  shows "(if a \<le> b then [a..b - 1] else rev [b + 1..a]) @ [b] = xs"
    and "length xs = nat (\<bar>b - a\<bar> + 1)"
    and "hd xs = a" and "last xs = b"
    and "\<forall>k. Suc k < length xs \<longrightarrow> xs ! Suc k = xs ! k + (if a \<le> b then 1 else - 1)"
proof -
  show "(if a \<le> b then [a..b - 1] else rev [b + 1..a]) @ [b] = xs"
    unfolding xs_def by (auto simp: upto_rec2[of a b] upto_rec1[of b a])
  show "length xs = nat (\<bar>b - a\<bar> + 1)" unfolding xs_def by auto
  show "hd xs = a" unfolding xs_def
    by (auto simp: upto_rec1[of a b] upto_rec2[of b a])
  show "last xs = b" unfolding xs_def
    by (auto simp: upto_rec2[of a b] upto_rec1[of b a])
  show "\<forall>k. Suc k < length xs \<longrightarrow> xs ! Suc k = xs ! k + (if a \<le> b then 1 else - 1)"
    unfolding xs_def by (auto simp: rev_nth Suc_diff_Suc)
qed

text \<open>
  Claim C8, as amended. When the two ends of a range literal evaluate to the integers
  \<open>a\<close> and \<open>b\<close>, their difference fits a 64-bit integer (\<open>|b - a| < 2^63\<close>) and
  the host can reserve \<open>|b - a| + 1\<close> elements, the literal evaluates to a list of
  \<open>|b - a| + 1\<close> integers whose first element is \<open>a\<close>, whose last element is \<open>b\<close>,
  and in which each element is its predecessor plus 1 when \<open>b \<ge> a\<close> and minus 1 when
  \<open>b < a\<close> (for \<open>a = b\<close> the one-element list). The evaluation returns, in the state
  the two ends left.
\<close>

theorem range_literal:
  assumes "interp rangeStart st = Some (Ok (KInt a), st1)"
    and "interp rangeEnd st1 = Some (Ok (KInt b), st2)"
    and "\<bar>b - a\<bar> < 2 ^ 63"
    and "nat (\<bar>b - a\<bar> + 1) \<le> reserve_limit M"
  shows "\<exists>xs. visit_RangeLiteralNode M interp rangeStart rangeEnd st
                = Some (Ok (KList (map KInt xs)), st2)
            \<and> length xs = nat (\<bar>b - a\<bar> + 1)
            \<and> hd xs = a \<and> last xs = b
            \<and> (\<forall>k. Suc k < length xs \<longrightarrow>
                  xs ! Suc k = xs ! k + (if a \<le> b then 1 else - 1))"
proof -
  define xs where "xs = (if a \<le> b then [a..b] else rev [b..a])"
  have "visit_RangeLiteralNode M interp rangeStart rangeEnd st
          = Some (Ok (KList (map KInt ((if a \<le> b then [a..b - 1] else rev [b + 1..a]) @ [b]))), st2)"
    using assms
    by (simp add: visit_RangeLiteralNode_def and_then_def finish_def range_loop_result Let_def)
  then have "visit_RangeLiteralNode M interp rangeStart rangeEnd st
               = Some (Ok (KList (map KInt xs)), st2)"
    unfolding xs_def by (simp only: range_elements(1))
  with range_elements(2-5)[of a b] show ?thesis
    unfolding xs_def by blast
qed

theorem range_literal_witness:
  "visit_RangeLiteralNode MathImpl (interpretNode MathImpl 1)
     (LiteralNode (KInt 3)) (LiteralNode (KInt 1)) initial_state
   = Some (Ok (KList [KInt 3, KInt 2, KInt 1]), initial_state)"
proof -
  have lit: "interpretNode MathImpl 1 (LiteralNode (KInt n)) initial_state
               = Some (Ok (KInt n), initial_state)" for n
    by (simp add: visit_LiteralNode_def finish_def)
  have d: "\<bar>1 - 3\<bar> < (2 :: int) ^ 63" by simp
  have r: "nat (\<bar>1 - 3\<bar> + 1) \<le> reserve_limit MathImpl" by (simp add: MathImpl_def)
  from range_literal[where interp = "interpretNode MathImpl 1" and st = initial_state
      and M = MathImpl, OF lit lit d r]
  obtain xs where run: "visit_RangeLiteralNode MathImpl (interpretNode MathImpl 1)
        (LiteralNode (KInt 3)) (LiteralNode (KInt 1)) initial_state
        = Some (Ok (KList (map KInt xs)), initial_state)"
    and len: "length xs = nat (\<bar>1 - 3\<bar> + 1)"
    and h: "hd xs = 3" and l: "last xs = 1"
    and step: "\<forall>k. Suc k < length xs \<longrightarrow> xs ! Suc k = xs ! k + (if (3::int) \<le> 1 then 1 else - 1)"
    by blast
  from len have len3: "length xs = 3" by simp
  then obtain x y z where xs: "xs = [x, y, z]"
    by (auto simp: length_Suc_conv numeral_3_eq_3)
  from h l xs have "x = 3" "z = 1" by simp_all
  moreover from step[rule_format, of 0] xs \<open>x = 3\<close> have "y = 2" by simp
  ultimately show ?thesis using run xs by simp
qed

text \<open>
  Against the claim as first stated, for every pair of integers: between the ends
  \<open>-2^63\<close> and \<open>2^63 - 1\<close> the subtraction \<^verbatim>\<open>stop - start\<close> overflows, and the
  range from 0 to \<open>2^60\<close> asks \<^verbatim>\<open>reserve\<close> for more elements than a vector of values
  can have on a 64-bit host. Neither evaluation produces a list.
\<close>

theorem range_literal_far_ends_counterexample:
  "visit_RangeLiteralNode MathImpl (interpretNode MathImpl 1)
     (LiteralNode (KInt (- (2 ^ 63)))) (LiteralNode (KInt (2 ^ 63 - 1))) initial_state
   = Some (Fault Undefined, initial_state)
 \<and> visit_RangeLiteralNode MathImpl (interpretNode MathImpl 1)
     (LiteralNode (KInt 0)) (LiteralNode (KInt (2 ^ 60))) initial_state
   = Some (Fault StdAllocation, initial_state)"
  by (simp add: visit_RangeLiteralNode_def visit_LiteralNode_def and_then_def finish_def
      MathImpl_def)

section \<open>The list built-in \<^verbatim>\<open>map\<close>\<close>

text \<open>
  What \<^verbatim>\<open>lambdaMap\<close> collects: one value per statement of the body and per element.
  With a body of one statement this is what the specification describes.
\<close>

lemma and_then_Some_Ok:
  "and_then m f = Some (Ok y, st') \<Longrightarrow> \<exists>v st1. m = Some (Ok v, st1) \<and> f v st1 = Some (Ok y, st')"
  by (auto simp: and_then_def split: option.splits prod.splits result.splits)




lemma map_elements_spec_length:
  "map_elements_spec interp x stmts elements acc st = Some (Ok ys, st')
     \<Longrightarrow> length ys = length acc + length elements"
proof (induction elements arbitrary: acc st)
  case Nil
  then show ?case by (simp add: finish_def)
next
  case (Cons e elements)
  from Cons.prems have p: "and_then (interpret_each interp stmts (set_variable x e st))
       (\<lambda>vs st1. map_elements_spec interp x stmts elements
                    (acc @ [if vs = [] then default_value else last vs]) st1)
         = Some (Ok ys, st')"
    by simp
  from and_then_Some_Ok[OF p] obtain vs st1 where
    "map_elements_spec interp x stmts elements
       (acc @ [if vs = [] then default_value else last vs]) st1 = Some (Ok ys, st')"
    by blast
  from Cons.IH[OF this] show ?case by simp
qed




text \<open>
  Evaluation at concrete inputs: the definitions that the simplifier unfolds.
\<close>

lemma MathImpl_fields:
  "do_binary_op MathImpl = spec_do_binary_op"
  "is_truthy MathImpl = spec_is_truthy"
  "get_integer MathImpl = spec_get_integer"
  "get_string MathImpl = spec_get_string"
  by (simp_all add: MathImpl_def)

lemmas eval_simps =
  and_then_def finish_def Let_def set_variable_def erase_variable_def update_top_def
  visit_LiteralNode_def visit_IdentifierNode_def visit_BinaryOperationNode_def
  visit_PrintNode_def visit_ThrowNode_def throw_fields_def
  MathImpl_fields spec_do_binary_op_def spec_is_truthy_def spec_get_integer_def spec_get_string_def
  new_frame_def initial_state_def one_frame_def
  inObjectContext_def isFlagSet_def InObject_def default_value_def
  numeral_2_eq_2 numeral_3_eq_3







section \<open>Try, catch, finally\<close>

text \<open>
  The completion paths of a try statement. The finally body runs after a try body that
  completes and after a catch body that completes; a \<^verbatim>\<open>KiwiError\<close> of the catch body
  leaves the statement at once, with the finally body not run and the catch names still
  bound.
\<close>

lemma try_catch_body_raises:
  assumes "interpret_each interp tryBody st = Some (Err e, st1)"
    and "catchBody \<noteq> []" and "callStack st1 \<noteq> []"
    and "interpret_each interp catchBody
           (bind_catch_name errorMessage (KString (getMessage e))
              (bind_catch_name errorType (KString (getError e)) st1)) = Some (Err e', st2)"
  shows "visit_TryNode interp tryBody catchBody finallyBody errorType errorMessage st
           = Some (Err e', st2)"
  using assms
  by (cases "callStack st1") (simp_all add: visit_TryNode_def Let_def and_then_def)

lemma try_body_completes:
  assumes "interpret_each interp tryBody st = Some (Ok vs, st1)"
  shows "visit_TryNode interp tryBody catchBody finallyBody errorType errorMessage st
           = run_finally interp finallyBody st1"
  using assms by (simp add: visit_TryNode_def)

lemma try_catch_body_completes:
  assumes "interpret_each interp tryBody st = Some (Err e, st1)"
    and "catchBody \<noteq> []" and "callStack st1 \<noteq> []"
    and "interpret_each interp catchBody
           (bind_catch_name errorMessage (KString (getMessage e))
              (bind_catch_name errorType (KString (getError e)) st1)) = Some (Ok vs, st2)"
  shows "visit_TryNode interp tryBody catchBody finallyBody errorType errorMessage st
           = run_finally interp finallyBody
               (erase_catch_name errorMessage (erase_catch_name errorType st2))"
  using assms
  by (cases "callStack st1") (simp_all add: visit_TryNode_def Let_def and_then_def)

text \<open>
  Scenario S4: the caught message is printed, then \<open>done\<close>.
\<close>

lemma scenario_S4_output:
  "printed (interpretNode MathImpl 4 (ProgramNode False [scenario_S4]) initial_state)
     = Some (Ok (KInt 0), [(KString ''oops'', True), (KString ''done'', True)])"
  by (simp add: printed_def scenario_S4_def visit_ProgramNode_def visit_TryNode_def
      run_finally_def bind_catch_name_def erase_catch_name_def eval_simps eval_nat_numeral)

text \<open>
  Claim C5 says that the finally body of a try node runs exactly once on every completion
  path, also when the catch body itself raises. The handler runs it once after a try
  body or a catch body that completes (the lemmas above, and scenario S4), but not when
  the catch body raises: for \<^verbatim>\<open>try throw "a" catch throw "b" finally println "done"
  end\<close> the error \<open>b\<close> leaves the statement and nothing has been printed.
\<close>

theorem catch_throws_skips_finally:
  "printed (interpretNode MathImpl 4 (ProgramNode False [catch_throws]) initial_state)
     = Some (Err (KiwiError ''KiwiError'' ''b''), [])"
  by (simp add: printed_def catch_throws_def visit_ProgramNode_def visit_TryNode_def
      run_finally_def bind_catch_name_def erase_catch_name_def eval_simps eval_nat_numeral)

section \<open>Slice assignment and slice reads\<close>











section \<open>Negative list indices\<close>

text \<open>
  The single-index read of \<^verbatim>\<open>InterpHelper::interpretListSlice\<close> adds the length to a
  negative index: \<open>-k\<close> with \<open>1 \<le> k \<le> len\<close> reads the element at \<open>len - k\<close>, and
  \<open>k > len\<close> is a \<^verbatim>\<open>RangeError\<close> (for indices and lengths that fit an
  \<^verbatim>\<open>int\<close>). The handler of the indexing node does not: there every negative index
  on a list is a \<^verbatim>\<open>RangeError\<close>.
\<close>

lemma single_index_negative:
  assumes "1 \<le> k" and "k \<le> 2 ^ 31" and "length L < 2 ^ 31"
  shows "interpretListSlice
           \<lparr>indexOrStart = KInt (- k), stopIndex = b, stepValue = c, isSlice = False\<rparr> L
       = Some (if k \<le> int (length L) then Ok (L ! (length L - nat k))
               else Err (RangeError ''List index out of range.''))"
proof -
  have k: "to_int (- k) = - k" using assms by (intro to_int_id) auto
  have l: "to_int (int (length L)) = int (length L)" using assms by (intro to_int_id) auto
  have n: "nat (int (length L) - k) = length L - nat k" using assms by linarith
  show ?thesis using assms
    by (simp add: interpretListSlice_def k l n Let_def)
qed

lemma indexing_negative_index:
  assumes "interp objectNode st = Some (Ok (KList L), st1)"
    and "interp indexExpression st1 = Some (Ok (KInt (- k)), st2)"
    and "\<not> is_IndexingNode indexExpression"
    and "get_integer M (KInt (- k)) = Ok (- k)" and "1 \<le> k"
  shows "visit_IndexingNode M interp (Some objectNode) indexExpression st
           = Some (Err (RangeError ''The index was outside the bounds of the list.''), st2)"
  using assms
  by (cases indexExpression) (simp_all add: visit_IndexingNode_def and_then_def finish_def)


text \<open>
  Claim C2 says that reading a list at the negative index \<open>-k\<close>, \<open>1 \<le> k \<le> len(L)\<close>,
  returns the element at \<open>len(L) - k\<close>, and that \<open>k > len(L)\<close> fails with
  \<^verbatim>\<open>RangeError\<close>. The evaluator's indexing handler fails with \<^verbatim>\<open>RangeError\<close> at
  index \<open>-1\<close> of \<open>[10, 20, 30]\<close>, where the helper's single-index read returns 30.
\<close>

theorem indexing_negative_index_fails:
  "visit_IndexingNode MathImpl (interpretNode MathImpl 1)
     (Some (LiteralNode (KList [KInt 10, KInt 20, KInt 30]))) (LiteralNode (KInt (- 1)))
     initial_state
   = Some (Err (RangeError ''The index was outside the bounds of the list.''), initial_state)
 \<and> interpretListSlice
     \<lparr>indexOrStart = KInt (- 1), stopIndex = KInt 0, stepValue = KInt 1, isSlice = False\<rparr>
     [KInt 10, KInt 20, KInt 30]
   = Some (Ok (KInt 30))"
  by (simp add: visit_IndexingNode_def interpretListSlice_def to_int_def eval_simps)

end
